theory Spec2Isabelle
  imports Complex_Main
begin

section \<open>The hook \<open>useFitText\<close> of src/index.ts\<close>

text \<open>
  The hook keeps a search state (a React state cell), a calculating flag that exists twice
  (the React state \<open>isCalculating\<close> that is returned to the caller, and the ref
  \<open>isCalculatingRef\<close> that the triggers read), a ref holding the dependency list seen
  last, and a ref to the container element. Three pieces of code change them: the callback
  of the resize observer, the effect that watches the dependency list, and the layout effect
  that measures the container and moves the font size.

  JavaScript numbers are modelled as real numbers: rounding and \<open>NaN\<close> are left out,
  so nothing here speaks about how the doubles of the program round.
  Callbacks and the console are modelled by a trace of the calls that were made. When
  React runs an effect is not modelled: the theorems are about single runs of the three
  pieces of code and about lists of such runs.
\<close>

subsection \<open>Options\<close>

datatype TLogLevel = Debug | Info | Warn | Error | NoLog

fun LOG_LEVEL :: "TLogLevel \<Rightarrow> nat" where
  "LOG_LEVEL Debug = 10"
| "LOG_LEVEL Info = 20"
| "LOG_LEVEL Warn = 30"
| "LOG_LEVEL Error = 40"
| "LOG_LEVEL NoLog = 100"

text \<open>
  \<open>onFinish\<close> and \<open>onStart\<close> are optional callbacks; the fields say whether one was
  supplied (\<open>onStart && onStart()\<close> calls it only then).
\<close>

record TOptions =
  logLevel :: TLogLevel
  maxFontSize :: real
  minFontSize :: real
  onFinish :: bool
  onStart :: bool
  resolution :: real

definition defaultOptions :: TOptions where
  "defaultOptions =
     \<lparr>logLevel = Warn, maxFontSize = 100, minFontSize = 20,
      onFinish = False, onStart = False, resolution = 5\<rparr>"

subsection \<open>State\<close>

record SearchState =
  calcKey :: nat
  fontSize :: real
  fontSizePrev :: real
  fontSizeMax :: real
  fontSizeMin :: real

text \<open>The four measures of the container that the layout effect reads.\<close>

record Element =
  scrollHeight :: int
  offsetHeight :: int
  scrollWidth :: int
  offsetWidth :: int

datatype effect = OnStart | OnFinish real | ConsoleInfo real

text \<open>
  \<open>ConsoleInfo m\<close> is the call of \<open>console.info\<close> whose message is built from the
  number \<open>m\<close>. The dependency list is a list of values of any type \<open>'d\<close>, compared
  by \<open>dequal\<close>, which is equality of values; \<open>depsPrevRef\<close> is \<open>None\<close> while
  the ref is still undefined.
\<close>

record 'd Hook =
  state :: SearchState
  isCalculating :: bool
  isCalculatingRef :: bool
  depsPrevRef :: "'d list option"
  effects :: "effect list"

definition initState :: "TOptions \<Rightarrow> SearchState" where
  "initState opts =
     \<lparr>calcKey = 0,
      fontSize = maxFontSize opts,
      fontSizePrev = minFontSize opts,
      fontSizeMax = maxFontSize opts,
      fontSizeMin = minFontSize opts\<rparr>"

text \<open>The hook after its first render.\<close>

definition initHook :: "TOptions \<Rightarrow> 'd Hook" where
  "initHook opts =
     \<lparr>state = initState opts, isCalculating = False, isCalculatingRef = False,
      depsPrevRef = None, effects = []\<rparr>"

subsection \<open>The resize trigger (lines 69 to 89)\<close>

text \<open>
  The callback is a closure: \<open>ck\<close> is the value of \<open>calcKey\<close> that it captured when
  the observer was created.
\<close>

definition resizeCallback :: "TOptions \<Rightarrow> nat \<Rightarrow> 'd Hook \<Rightarrow> 'd Hook" where
  "resizeCallback opts ck h =
     (if isCalculatingRef h then h
      else h\<lparr>effects := effects h @ (if onStart opts then [OnStart] else []),
             isCalculatingRef := True,
             isCalculating := True,
             state := (initState opts)\<lparr>calcKey := ck + 1\<rparr>\<rparr>)"

text \<open>
  The observer is created once, by the initialiser of a state cell in the first render,
  where the state is \<open>initState\<close>.
\<close>

definition ro :: "TOptions \<Rightarrow> 'd Hook \<Rightarrow> 'd Hook" where
  "ro opts = resizeCallback opts (calcKey (initState opts))"

subsection \<open>The dependency trigger (lines 102 to 116)\<close>

definition depsEffect :: "TOptions \<Rightarrow> 'd list \<Rightarrow> 'd Hook \<Rightarrow> 'd Hook" where
  "depsEffect opts deps h =
     (if calcKey (state h) = 0 \<or> isCalculatingRef h then h
      else
        (let h1 =
           (if depsPrevRef h \<noteq> Some deps
            then h\<lparr>effects := effects h @ (if onStart opts then [OnStart] else []),
                   isCalculating := True,
                   state := (initState opts)\<lparr>calcKey := calcKey (state h) + 1\<rparr>\<rparr>
            else h)
         in h1\<lparr>depsPrevRef := Some deps\<rparr>))"

subsection \<open>The layout effect (lines 119 to 189)\<close>

text \<open>\<open>None\<close> is a ref whose \<open>current\<close> is \<open>null\<close>.\<close>

definition isOverflow :: "Element option \<Rightarrow> bool" where
  "isOverflow r =
     (case r of
        None \<Rightarrow> False
      | Some e \<Rightarrow> scrollHeight e > offsetHeight e \<or> scrollWidth e > offsetWidth e)"

definition isWithinResolution :: "TOptions \<Rightarrow> SearchState \<Rightarrow> bool" where
  "isWithinResolution opts s \<longleftrightarrow> \<bar>fontSize s - fontSizePrev s\<bar> \<le> resolution opts"

definition isFailed :: "Element option \<Rightarrow> SearchState \<Rightarrow> bool" where
  "isFailed r s \<longleftrightarrow> isOverflow r \<and> fontSize s = fontSizePrev s"

definition isAsc :: "SearchState \<Rightarrow> bool" where
  "isAsc s \<longleftrightarrow> fontSize s > fontSizePrev s"

definition layoutEffect :: "TOptions \<Rightarrow> Element option \<Rightarrow> 'd Hook \<Rightarrow> 'd Hook" where
  "layoutEffect opts r h =
     (let s = state h in
      if calcKey s = 0 then h
      else if isWithinResolution opts s then
        (if isFailed r s then
           h\<lparr>isCalculatingRef := False,
             isCalculating := False,
             effects := effects h @
               (if LOG_LEVEL (logLevel opts) \<le> LOG_LEVEL Info
                then [ConsoleInfo (minFontSize opts)] else [])\<rparr>
         else if isOverflow r then
           h\<lparr>state :=
               \<lparr>calcKey = calcKey s,
                fontSize = (if isAsc s then fontSizePrev s else fontSizeMin s),
                fontSizePrev = fontSizePrev s,
                fontSizeMax = fontSizeMax s,
                fontSizeMin = fontSizeMin s\<rparr>\<rparr>
         else
           h\<lparr>isCalculatingRef := False,
             isCalculating := False,
             effects := effects h @ (if onFinish opts then [OnFinish (fontSize s)] else [])\<rparr>)
      else
        (let delta =
           (if isOverflow r
            then (if isAsc s then fontSizePrev s - fontSize s else fontSizeMin s - fontSize s)
            else (if isAsc s then fontSizeMax s - fontSize s else fontSizePrev s - fontSize s));
           newMax = (if isOverflow r then min (fontSizeMax s) (fontSize s) else fontSizeMax s);
           newMin = (if isOverflow r then fontSizeMin s else max (fontSizeMin s) (fontSize s))
         in h\<lparr>state :=
               \<lparr>calcKey = calcKey s,
                fontSize = fontSize s + delta / 2,
                fontSizePrev = fontSize s,
                fontSizeMax = newMax,
                fontSizeMin = newMin\<rparr>\<rparr>))"

subsection \<open>What the hook returns (line 191)\<close>

text \<open>
  The font size is returned as the string \<open>`${fontSize}%`\<close>. How the host prints a
  number is the parameter \<open>numberToString\<close>.
\<close>

definition fontSizeOutput :: "(real \<Rightarrow> string) \<Rightarrow> 'd Hook \<Rightarrow> string" where
  "fontSizeOutput numberToString h = numberToString (fontSize (state h)) @ ''%''"

subsection \<open>Events\<close>

text \<open>
  The things that can happen to a mounted hook, and the hook after a list of them. The
  resize notification reaches the observer created in the first render.
\<close>

datatype 'd event = Resize | Deps "'d list" | Layout "Element option"

fun dispatch :: "TOptions \<Rightarrow> 'd Hook \<Rightarrow> 'd event \<Rightarrow> 'd Hook" where
  "dispatch opts h Resize = ro opts h"
| "dispatch opts h (Deps deps) = depsEffect opts deps h"
| "dispatch opts h (Layout r) = layoutEffect opts r h"

definition after :: "TOptions \<Rightarrow> 'd event list \<Rightarrow> 'd Hook" where
  "after opts evs = foldl (dispatch opts) (initHook opts) evs"

subsection \<open>The container ref, and what can raise\<close>

text \<open>
  Reading a property of \<open>ref.current\<close> raises a \<open>TypeError\<close> when \<open>current\<close> is
  \<open>null\<close>, and so does \<open>ro.observe\<close> when it is given \<open>null\<close>.
\<close>

datatype error = TypeError

definition readCurrent :: "(Element \<Rightarrow> int) \<Rightarrow> Element option \<Rightarrow> error + int" where
  "readCurrent field r = (case r of None \<Rightarrow> Inl TypeError | Some e \<Rightarrow> Inr (field e))"


text \<open>
  Lines 128 to 131 once more, with the reads as operations that can raise and the
  short circuits of \<open>&&\<close> and \<open>||\<close> written out; \<open>isOverflow\<close> is the value.
\<close>

definition measureOverflow :: "Element option \<Rightarrow> error + bool" where
  "measureOverflow r =
     (if r = None then Inr False
      else
        (case readCurrent scrollHeight r of
           Inl e \<Rightarrow> Inl e
         | Inr sh \<Rightarrow>
             (case readCurrent offsetHeight r of
                Inl e \<Rightarrow> Inl e
              | Inr oh \<Rightarrow>
                  if sh > oh then Inr True
                  else
                    (case readCurrent scrollWidth r of
                       Inl e \<Rightarrow> Inl e
                     | Inr sw \<Rightarrow>
                         (case readCurrent offsetWidth r of
                            Inl e \<Rightarrow> Inl e
                          | Inr ow \<Rightarrow> Inr (sw > ow))))))"




text \<open>
  A render: the dependency list is an optional argument, and line 116 spreads it into the
  dependency array of the effect, which raises when the list was omitted. Otherwise the
  render returns the font size string and the calculating flag (and the ref).
\<close>

definition spreadDeps :: "'d list option \<Rightarrow> error + 'd list" where
  "spreadDeps deps = (case deps of None \<Rightarrow> Inl TypeError | Some ds \<Rightarrow> Inr ds)"

definition useFitText :: "(real \<Rightarrow> string) \<Rightarrow> 'd list option \<Rightarrow> 'd Hook \<Rightarrow> error + string \<times> bool" where
  "useFitText numberToString deps h =
     (case spreadDeps deps of
        Inl e \<Rightarrow> Inl e
      | Inr ds \<Rightarrow> Inr (fontSizeOutput numberToString h, isCalculating h))"

subsection \<open>Predicates of the properties\<close>

text \<open>A search is over when both copies of the calculating flag are cleared.\<close>

definition finished :: "'d Hook \<Rightarrow> bool" where
  "finished h \<longleftrightarrow> \<not> isCalculating h \<and> \<not> isCalculatingRef h"

text \<open>The candidate lies in the bracket; so does the candidate tested before.\<close>

definition bracketed :: "SearchState \<Rightarrow> bool" where
  "bracketed s \<longleftrightarrow> fontSizeMin s \<le> fontSize s \<and> fontSize s \<le> fontSizeMax s"

definition prevBracketed :: "SearchState \<Rightarrow> bool" where
  "prevBracketed s \<longleftrightarrow> fontSizeMin s \<le> fontSizePrev s \<and> fontSizePrev s \<le> fontSizeMax s"

subsection \<open>Sample inputs\<close>

text \<open>
  A container 40 high and 100 wide whose content is too high, one whose content fits, and
  the layout of the example scenario: the content fits up to a font size of 62.
\<close>

definition tooBig :: Element where
  "tooBig = \<lparr>scrollHeight = 41, offsetHeight = 40, scrollWidth = 100, offsetWidth = 100\<rparr>"

definition roomy :: Element where
  "roomy = \<lparr>scrollHeight = 40, offsetHeight = 40, scrollWidth = 100, offsetWidth = 100\<rparr>"

definition fits62 :: "real \<Rightarrow> Element option" where
  "fits62 s = Some (if s > 62 then tooBig else roomy)"

text \<open>The hook with the default options after its first resize notification.\<close>

definition started :: "nat Hook" where
  "started = ro defaultOptions (initHook defaultOptions)"

section \<open>The search branch\<close>

text \<open>
  Claim C1. In a run of the layout effect with \<open>calcKey > 0\<close> and
  \<open>|fontSize - fontSizePrev| > resolution\<close> the next search state is: on overflow,
  \<open>delta\<close> is \<open>fontSizePrev - fontSize\<close> when ascending and
  \<open>fontSizeMin - fontSize\<close> otherwise, the new maximum is the smaller of the old one and
  \<open>fontSize\<close>, and the minimum is kept; without overflow, \<open>delta\<close> is
  \<open>fontSizeMax - fontSize\<close> when ascending and \<open>fontSizePrev - fontSize\<close> otherwise,
  the new minimum is the larger of the old one and \<open>fontSize\<close>, and the maximum is kept.
  In both cases the next \<open>fontSize\<close> is \<open>fontSize + delta / 2\<close>, the next
  \<open>fontSizePrev\<close> is \<open>fontSize\<close>, and \<open>calcKey\<close> is kept.
\<close>

theorem search_step:
  assumes "0 < calcKey (state h)"
    and "\<bar>fontSize (state h) - fontSizePrev (state h)\<bar> > resolution opts"
  shows "state (layoutEffect opts r h) =
     \<lparr>calcKey = calcKey (state h),
      fontSize = fontSize (state h) +
        (if isOverflow r
         then (if fontSize (state h) > fontSizePrev (state h)
               then fontSizePrev (state h) - fontSize (state h)
               else fontSizeMin (state h) - fontSize (state h))
         else (if fontSize (state h) > fontSizePrev (state h)
               then fontSizeMax (state h) - fontSize (state h)
               else fontSizePrev (state h) - fontSize (state h))) / 2,
      fontSizePrev = fontSize (state h),
      fontSizeMax =
        (if isOverflow r then min (fontSizeMax (state h)) (fontSize (state h))
         else fontSizeMax (state h)),
      fontSizeMin =
        (if isOverflow r then fontSizeMin (state h)
         else max (fontSizeMin (state h)) (fontSize (state h)))\<rparr>"
  using assms by (simp add: layoutEffect_def isWithinResolution_def isAsc_def Let_def)

theorem search_step_witness:
  "0 < calcKey (state started)
   \<and> \<bar>fontSize (state started) - fontSizePrev (state started)\<bar> > resolution defaultOptions
   \<and> state (layoutEffect defaultOptions (Some tooBig) started) =
       \<lparr>calcKey = 1, fontSize = 60, fontSizePrev = 100, fontSizeMax = 100, fontSizeMin = 20\<rparr>"
  using search_step [of started defaultOptions "Some tooBig"]
  by (simp add: started_def ro_def resizeCallback_def initHook_def initState_def
      defaultOptions_def isOverflow_def tooBig_def)

section \<open>The corrective step\<close>

text \<open>
  Claim C8 as stated fails: the correction is neither the only one of a search nor the
  last step before its end. With the default options and content that fits up to 62, the
  fifth measurement is a corrective step (65 to 60), the sixth is a search step (back to
  65) that leaves the search running, and the seventh is a corrective step again.
\<close>

theorem final_correction_counterexample:
  "state (after defaultOptions
      [Resize, Layout (fits62 100), Layout (fits62 60), Layout (fits62 80),
       Layout (fits62 70) :: nat event]) =
     \<lparr>calcKey = 1, fontSize = 65, fontSizePrev = 70, fontSizeMax = 70, fontSizeMin = 60\<rparr>
   \<and> isOverflow (fits62 65)
   \<and> state (after defaultOptions
      [Resize, Layout (fits62 100), Layout (fits62 60), Layout (fits62 80),
       Layout (fits62 70), Layout (fits62 65) :: nat event]) =
     \<lparr>calcKey = 1, fontSize = 60, fontSizePrev = 70, fontSizeMax = 70, fontSizeMin = 60\<rparr>
   \<and> state (after defaultOptions
      [Resize, Layout (fits62 100), Layout (fits62 60), Layout (fits62 80),
       Layout (fits62 70), Layout (fits62 65), Layout (fits62 60) :: nat event]) =
     \<lparr>calcKey = 1, fontSize = 65, fontSizePrev = 60, fontSizeMax = 70, fontSizeMin = 60\<rparr>
   \<and> isCalculating (after defaultOptions
      [Resize, Layout (fits62 100), Layout (fits62 60), Layout (fits62 80),
       Layout (fits62 70), Layout (fits62 65), Layout (fits62 60) :: nat event])
   \<and> state (after defaultOptions
      [Resize, Layout (fits62 100), Layout (fits62 60), Layout (fits62 80),
       Layout (fits62 70), Layout (fits62 65), Layout (fits62 60),
       Layout (fits62 65) :: nat event]) =
     \<lparr>calcKey = 1, fontSize = 60, fontSizePrev = 60, fontSizeMax = 70, fontSizeMin = 60\<rparr>"
  by (simp add: after_def ro_def resizeCallback_def layoutEffect_def isWithinResolution_def
      isFailed_def isOverflow_def isAsc_def defaultOptions_def fits62_def roomy_def
      tooBig_def initHook_def initState_def Let_def)

text \<open>
  Claim C8, amended. In a run of the layout effect with \<open>calcKey > 0\<close>, within the
  resolution, with overflow and \<open>fontSize \<noteq> fontSizePrev\<close>, the hook changes in one
  place only: \<open>fontSize\<close> becomes \<open>fontSizePrev\<close> when ascending and
  \<open>fontSizeMin\<close> otherwise (no change at all when it is \<open>fontSizeMin\<close> already).
  \<open>fontSizePrev\<close>, the bracket and \<open>calcKey\<close> are kept, and so are both
  calculating flags and the trace: this run does not end the search and calls nothing.
  Nothing is said about the runs that follow.
\<close>

theorem corrective_step:
  assumes "0 < calcKey (state h)"
    and "\<bar>fontSize (state h) - fontSizePrev (state h)\<bar> \<le> resolution opts"
    and "isOverflow r"
    and "fontSize (state h) \<noteq> fontSizePrev (state h)"
  shows "layoutEffect opts r h =
     h\<lparr>state := (state h)\<lparr>fontSize :=
         (if fontSize (state h) > fontSizePrev (state h) then fontSizePrev (state h)
          else fontSizeMin (state h))\<rparr>\<rparr>"
  using assms
  by (simp add: layoutEffect_def isWithinResolution_def isAsc_def isFailed_def Let_def)

theorem corrective_step_witness:
  "layoutEffect defaultOptions (Some tooBig)
     (started\<lparr>state := \<lparr>calcKey = 1, fontSize = 65, fontSizePrev = 70,
                         fontSizeMax = 70, fontSizeMin = 60\<rparr>\<rparr>) =
   started\<lparr>state := \<lparr>calcKey = 1, fontSize = 60, fontSizePrev = 70,
                       fontSizeMax = 70, fontSizeMin = 60\<rparr>\<rparr>"
  using corrective_step [of "started\<lparr>state := \<lparr>calcKey = 1, fontSize = 65, fontSizePrev = 70,
      fontSizeMax = 70, fontSizeMin = 60\<rparr>\<rparr>" defaultOptions "Some tooBig"]
  by (simp add: defaultOptions_def isOverflow_def tooBig_def)

section \<open>The bracket invariant\<close>

lemma initState_bracketed:
  "minFontSize opts \<le> maxFontSize opts \<Longrightarrow>
   bracketed ((initState opts)\<lparr>calcKey := k\<rparr>) \<and> prevBracketed ((initState opts)\<lparr>calcKey := k\<rparr>)"
  by (simp add: bracketed_def prevBracketed_def initState_def)

lemma resizeCallback_bracketed:
  assumes "minFontSize opts \<le> maxFontSize opts"
    and "bracketed (state h) \<and> prevBracketed (state h)"
  shows "bracketed (state (resizeCallback opts ck h)) \<and> prevBracketed (state (resizeCallback opts ck h))"
  using assms initState_bracketed [of opts "ck + 1"] by (simp add: resizeCallback_def)

lemma depsEffect_bracketed:
  assumes "minFontSize opts \<le> maxFontSize opts"
    and "bracketed (state h) \<and> prevBracketed (state h)"
  shows "bracketed (state (depsEffect opts deps h)) \<and> prevBracketed (state (depsEffect opts deps h))"
  using assms initState_bracketed [of opts "calcKey (state h) + 1"]
  by (simp add: depsEffect_def Let_def)

lemma layoutEffect_bracketed:
  assumes "bracketed (state h) \<and> prevBracketed (state h)"
  shows "bracketed (state (layoutEffect opts r h)) \<and> prevBracketed (state (layoutEffect opts r h))"
  using assms
  by (auto simp: layoutEffect_def Let_def bracketed_def prevBracketed_def isAsc_def field_simps)

lemma after_snoc: "after opts (evs @ [e]) = dispatch opts (after opts evs) e"
  by (simp add: after_def)

lemma after_bracketed:
  assumes "minFontSize opts \<le> maxFontSize opts"
  shows "bracketed (state (after opts evs)) \<and> prevBracketed (state (after opts evs))"
proof (induction evs rule: rev_induct)
  case Nil
  show ?case using assms initState_bracketed [of opts 0]
    by (simp add: after_def initHook_def initState_def)
next
  case (snoc e evs)
  show ?case
  proof (cases e)
    case Resize
    with snoc assms show ?thesis
      by (simp add: after_snoc ro_def resizeCallback_bracketed)
  next
    case (Deps deps)
    with snoc assms show ?thesis by (simp add: after_snoc depsEffect_bracketed)
  next
    case (Layout r)
    with snoc show ?thesis by (simp add: after_snoc layoutEffect_bracketed)
  qed
qed

text \<open>
  Claim C4. With \<open>0 \<le> minFontSize < maxFontSize\<close>, the candidate lies in the bracket
  in the initial state and after every list of resize notifications, dependency changes and
  measurements, whatever was measured; so every reset state has the property and every run
  of the layout effect on a state that the hook can reach keeps it.
\<close>

theorem bracket_invariant:
  assumes "0 \<le> minFontSize opts" and "minFontSize opts < maxFontSize opts"
  shows "bracketed (state (initHook opts :: 'd Hook))
    \<and> bracketed (state (after opts (evs :: 'd event list)))
    \<and> bracketed (state (layoutEffect opts r (after opts evs)))"
proof -
  have le: "minFontSize opts \<le> maxFontSize opts" using assms by simp
  have "bracketed (state (after opts ([] :: 'd event list)))"
    using le by (simp only: after_bracketed)
  then have "bracketed (state (initHook opts :: 'd Hook))" by (simp add: after_def)
  moreover have "bracketed (state (after opts evs))"
    using le by (simp only: after_bracketed)
  moreover have "bracketed (state (layoutEffect opts r (after opts evs)))"
    using le by (simp only: after_bracketed layoutEffect_bracketed)
  ultimately show ?thesis by simp
qed

theorem bracket_invariant_witness:
  "(0::real) \<le> minFontSize defaultOptions \<and> minFontSize defaultOptions < maxFontSize defaultOptions
   \<and> state (after defaultOptions [Resize, Layout (Some tooBig), Layout (Some roomy) :: nat event]) =
       \<lparr>calcKey = 1, fontSize = 80, fontSizePrev = 60, fontSizeMax = 100, fontSizeMin = 60\<rparr>
   \<and> bracketed (state (after defaultOptions [Resize, Layout (Some tooBig), Layout (Some roomy) :: nat event]))"
  using bracket_invariant [of defaultOptions "[Resize, Layout (Some tooBig), Layout (Some roomy) :: nat event]" None]
  by (simp add: defaultOptions_def after_def ro_def resizeCallback_def initHook_def initState_def
      layoutEffect_def isWithinResolution_def isOverflow_def isAsc_def isFailed_def tooBig_def roomy_def Let_def)

section \<open>Termination\<close>


section \<open>The runs that end a search\<close>

text \<open>
  Claim C10. A run of the layout effect that ends the search (within the resolution, and
  either failed or without overflow) sets no new search state: the state is the one before,
  the font size returned to the caller is still the printed candidate followed by a percent
  sign, both flags are cleared, and on success with an \<open>onFinish\<close> callback the one call
  added to the trace passes that same candidate.
\<close>

theorem terminating_step_keeps_state:
  assumes "0 < calcKey (state h)"
    and "\<bar>fontSize (state h) - fontSizePrev (state h)\<bar> \<le> resolution opts"
    and "isFailed r (state h) \<or> \<not> isOverflow r"
  shows "state (layoutEffect opts r h) = state h
    \<and> finished (layoutEffect opts r h)
    \<and> fontSizeOutput numberToString (layoutEffect opts r h)
        = numberToString (fontSize (state h)) @ ''%''
    \<and> (\<not> isOverflow r \<and> onFinish opts \<longrightarrow>
         effects (layoutEffect opts r h) = effects h @ [OnFinish (fontSize (state h))])"
  using assms
  by (auto simp: layoutEffect_def isWithinResolution_def isFailed_def finished_def
      fontSizeOutput_def Let_def)

theorem terminating_step_keeps_state_witness:
  "state (layoutEffect (defaultOptions\<lparr>onFinish := True\<rparr>) (Some roomy)
     (started\<lparr>state := \<lparr>calcKey = 1, fontSize = 60, fontSizePrev = 60,
                         fontSizeMax = 70, fontSizeMin = 60\<rparr>\<rparr>)) =
     \<lparr>calcKey = 1, fontSize = 60, fontSizePrev = 60, fontSizeMax = 70, fontSizeMin = 60\<rparr>
   \<and> effects (layoutEffect (defaultOptions\<lparr>onFinish := True\<rparr>) (Some roomy)
     (started\<lparr>state := \<lparr>calcKey = 1, fontSize = 60, fontSizePrev = 60,
                         fontSizeMax = 70, fontSizeMin = 60\<rparr>\<rparr>)) = [OnFinish 60]"
  using terminating_step_keeps_state [of "started\<lparr>state := \<lparr>calcKey = 1, fontSize = 60,
      fontSizePrev = 60, fontSizeMax = 70, fontSizeMin = 60\<rparr>\<rparr>"
      "defaultOptions\<lparr>onFinish := True\<rparr>" "Some roomy" "\<lambda>x. []"]
  by (simp add: defaultOptions_def isOverflow_def roomy_def started_def ro_def
      resizeCallback_def initHook_def initState_def)

section \<open>Failure\<close>

text \<open>
  Claim C2 as stated fails: with the default options (\<open>logLevel = "warn"\<close>) the failing
  run logs nothing, because the message goes to \<open>console.info\<close> behind the gate
  \<open>logLevel \<le> LOG_LEVEL.info\<close>.
\<close>

theorem failure_log_counterexample:
  "0 < calcKey (state (started\<lparr>state := \<lparr>calcKey = 1, fontSize = 20, fontSizePrev = 20,
                         fontSizeMax = 20, fontSizeMin = 20\<rparr>\<rparr>))
   \<and> \<bar>(20::real) - 20\<bar> \<le> resolution defaultOptions
   \<and> isOverflow (Some tooBig)
   \<and> effects (layoutEffect defaultOptions (Some tooBig)
        (started\<lparr>state := \<lparr>calcKey = 1, fontSize = 20, fontSizePrev = 20,
                         fontSizeMax = 20, fontSizeMin = 20\<rparr>\<rparr>)) = []"
  by (simp add: layoutEffect_def isWithinResolution_def isFailed_def isOverflow_def
      defaultOptions_def tooBig_def started_def ro_def resizeCallback_def initHook_def
      initState_def Let_def)

text \<open>
  Claim C2, amended. A run of the layout effect with \<open>calcKey > 0\<close>, within the
  resolution, with overflow and \<open>fontSize = fontSizePrev\<close> clears both calculating flags,
  sets no state, calls no callback, and logs the message with \<open>minFontSize\<close> through
  \<open>console.info\<close> once when the log level is \<open>debug\<close> or \<open>info\<close>, and not at
  all otherwise. How often the effect runs in one search is not part of the statement.
\<close>

theorem failure_step:
  assumes "0 < calcKey (state h)"
    and "\<bar>fontSize (state h) - fontSizePrev (state h)\<bar> \<le> resolution opts"
    and "isOverflow r"
    and "fontSize (state h) = fontSizePrev (state h)"
  shows "layoutEffect opts r h =
      h\<lparr>isCalculatingRef := False, isCalculating := False,
        effects := effects h @
          (if logLevel opts = Debug \<or> logLevel opts = Info
           then [ConsoleInfo (minFontSize opts)] else [])\<rparr>"
  using assms
  by (cases "logLevel opts")
     (simp_all add: layoutEffect_def isWithinResolution_def isFailed_def Let_def)

theorem failure_step_witness:
  "layoutEffect (defaultOptions\<lparr>logLevel := Info\<rparr>) (Some tooBig)
     (started\<lparr>state := \<lparr>calcKey = 1, fontSize = 20, fontSizePrev = 20,
                         fontSizeMax = 20, fontSizeMin = 20\<rparr>\<rparr>) =
   \<lparr>state = \<lparr>calcKey = 1, fontSize = 20, fontSizePrev = 20, fontSizeMax = 20, fontSizeMin = 20\<rparr>,
    isCalculating = False, isCalculatingRef = False, depsPrevRef = None,
    effects = [ConsoleInfo 20]\<rparr>"
  using failure_step [of "started\<lparr>state := \<lparr>calcKey = 1, fontSize = 20,
      fontSizePrev = 20, fontSizeMax = 20, fontSizeMin = 20\<rparr>\<rparr>"
      "defaultOptions\<lparr>logLevel := Info\<rparr>" "Some tooBig"]
  by (simp add: defaultOptions_def isOverflow_def tooBig_def started_def ro_def
      resizeCallback_def initHook_def initState_def)

section \<open>The dependency snapshot\<close>

text \<open>
  Claim C3 as stated fails: while \<open>calcKey\<close> is 0, and while the ref says that a search
  is running, the effect returns before it stores the list.
\<close>

theorem snapshot_counterexample:
  "depsPrevRef (depsEffect defaultOptions [1::nat] (initHook defaultOptions)) \<noteq> Some [1]
   \<and> depsPrevRef (depsEffect defaultOptions [1::nat] started) \<noteq> Some [1]"
  by (simp add: depsEffect_def initHook_def initState_def started_def ro_def resizeCallback_def)

text \<open>
  Claim C3, amended. The dependency effect stores the new list as the snapshot exactly when
  \<open>calcKey > 0\<close> and \<open>isCalculatingRef\<close> is not set, whether or not it resets the
  search; otherwise the snapshot stays as it was.
\<close>

theorem snapshot_stored:
  "depsPrevRef (depsEffect opts deps h) =
     (if calcKey (state h) = 0 \<or> isCalculatingRef h then depsPrevRef h else Some deps)"
  by (simp add: depsEffect_def Let_def)

theorem snapshot_stored_witness:
  "depsPrevRef (depsEffect defaultOptions [1::nat] (started\<lparr>isCalculatingRef := False\<rparr>)) = Some [1]
  \<and> depsPrevRef (depsEffect defaultOptions [1::nat]
        (started\<lparr>isCalculatingRef := False, depsPrevRef := Some [1]\<rparr>)) = Some [1]"
  using snapshot_stored [of defaultOptions "[1::nat]" "started\<lparr>isCalculatingRef := False\<rparr>"]
    snapshot_stored [of defaultOptions "[1::nat]" "started\<lparr>isCalculatingRef := False, depsPrevRef := Some [1]\<rparr>"]
  by (simp add: started_def ro_def resizeCallback_def initHook_def initState_def)

section \<open>Content that fits at the maximum\<close>

text \<open>
  Claim C6 as stated fails: with the default options the first measurement of content
  that fits takes the search branch, so after it the search is still running and
  \<open>onFinish\<close> has not been called.
\<close>

theorem first_measurement_counterexample:
  "\<not> isOverflow (Some roomy)
   \<and> state (ro (defaultOptions\<lparr>onFinish := True\<rparr>) (initHook (defaultOptions\<lparr>onFinish := True\<rparr>) :: nat Hook))
       = (initState (defaultOptions\<lparr>onFinish := True\<rparr>))\<lparr>calcKey := 1\<rparr>
   \<and> isCalculating (layoutEffect (defaultOptions\<lparr>onFinish := True\<rparr>) (Some roomy)
        (ro (defaultOptions\<lparr>onFinish := True\<rparr>) (initHook (defaultOptions\<lparr>onFinish := True\<rparr>) :: nat Hook)))
   \<and> effects (layoutEffect (defaultOptions\<lparr>onFinish := True\<rparr>) (Some roomy)
        (ro (defaultOptions\<lparr>onFinish := True\<rparr>) (initHook (defaultOptions\<lparr>onFinish := True\<rparr>) :: nat Hook))) = []"
  by (simp add: layoutEffect_def isWithinResolution_def isFailed_def isOverflow_def isAsc_def
      defaultOptions_def roomy_def ro_def resizeCallback_def initHook_def
      initState_def Let_def)

text \<open>
  Claim C6, amended. Let the content fit at \<open>maxFontSize\<close>, in a valid configuration
  with an \<open>onFinish\<close> callback, and take a freshly reset state. When
  \<open>maxFontSize - minFontSize \<le> resolution\<close>, a measurement of that state ends the search
  and calls \<open>onFinish(maxFontSize)\<close> once. Otherwise a measurement of that state keeps the
  candidate at \<open>maxFontSize\<close> and moves \<open>fontSizePrev\<close> and \<open>fontSizeMin\<close> up to
  it, calling nothing and leaving the flags as they are, and a measurement of the state so
  reached ends the search and calls \<open>onFinish(maxFontSize)\<close> once. Whether and how often
  the measurements run is not part of the statement.
\<close>

theorem fitting_at_max:
  assumes "minFontSize opts < maxFontSize opts"
    and "0 < resolution opts"
    and "onFinish opts"
    and "\<not> isOverflow r"
    and "\<not> isOverflow r'"
    and "state h = (initState opts)\<lparr>calcKey := Suc k\<rparr>"
  shows "(maxFontSize opts - minFontSize opts \<le> resolution opts \<longrightarrow>
       layoutEffect opts r h =
         h\<lparr>isCalculatingRef := False, isCalculating := False,
           effects := effects h @ [OnFinish (maxFontSize opts)]\<rparr>)
    \<and> (resolution opts < maxFontSize opts - minFontSize opts \<longrightarrow>
       layoutEffect opts r h =
         h\<lparr>state := \<lparr>calcKey = Suc k, fontSize = maxFontSize opts,
             fontSizePrev = maxFontSize opts, fontSizeMax = maxFontSize opts,
             fontSizeMin = maxFontSize opts\<rparr>\<rparr>
       \<and> layoutEffect opts r' (layoutEffect opts r h) =
         h\<lparr>state := \<lparr>calcKey = Suc k, fontSize = maxFontSize opts,
             fontSizePrev = maxFontSize opts, fontSizeMax = maxFontSize opts,
             fontSizeMin = maxFontSize opts\<rparr>,
           isCalculatingRef := False, isCalculating := False,
           effects := effects h @ [OnFinish (maxFontSize opts)]\<rparr>)"
proof -
  let ?mx = "maxFontSize opts" and ?mn = "minFontSize opts"
  have s: "state h = \<lparr>calcKey = Suc k, fontSize = ?mx, fontSizePrev = ?mn,
                        fontSizeMax = ?mx, fontSizeMin = ?mn\<rparr>"
    using assms(6) by (simp add: initState_def)
  have near: "layoutEffect opts r h =
      h\<lparr>isCalculatingRef := False, isCalculating := False,
        effects := effects h @ [OnFinish ?mx]\<rparr>"
    if "?mx - ?mn \<le> resolution opts"
    using that s assms(1,3,4)
    by (simp add: layoutEffect_def isWithinResolution_def isFailed_def Let_def)
  have far: "layoutEffect opts r h =
      h\<lparr>state := \<lparr>calcKey = Suc k, fontSize = ?mx, fontSizePrev = ?mx,
                    fontSizeMax = ?mx, fontSizeMin = ?mx\<rparr>\<rparr>"
    if "resolution opts < ?mx - ?mn"
    using that s assms(1,4)
    by (simp add: layoutEffect_def isWithinResolution_def isAsc_def Let_def)
  have second: "layoutEffect opts r'
      (h\<lparr>state := \<lparr>calcKey = Suc k, fontSize = ?mx, fontSizePrev = ?mx,
                    fontSizeMax = ?mx, fontSizeMin = ?mx\<rparr>\<rparr>) =
      h\<lparr>state := \<lparr>calcKey = Suc k, fontSize = ?mx, fontSizePrev = ?mx,
                    fontSizeMax = ?mx, fontSizeMin = ?mx\<rparr>,
        isCalculatingRef := False, isCalculating := False,
        effects := effects h @ [OnFinish ?mx]\<rparr>"
    using assms(2,3,5)
    by (simp add: layoutEffect_def isWithinResolution_def isFailed_def Let_def)
  show ?thesis using near far second by simp
qed

theorem fitting_at_max_witness:
  "layoutEffect (defaultOptions\<lparr>onFinish := True\<rparr>) (Some roomy)
     (layoutEffect (defaultOptions\<lparr>onFinish := True\<rparr>) (Some roomy)
        (ro (defaultOptions\<lparr>onFinish := True\<rparr>)
           (initHook (defaultOptions\<lparr>onFinish := True\<rparr>) :: nat Hook))) =
   \<lparr>state = \<lparr>calcKey = 1, fontSize = 100, fontSizePrev = 100, fontSizeMax = 100, fontSizeMin = 100\<rparr>,
    isCalculating = False, isCalculatingRef = False, depsPrevRef = None,
    effects = [OnFinish 100]\<rparr>
   \<and> layoutEffect (defaultOptions\<lparr>onFinish := True, maxFontSize := 24\<rparr>) (Some roomy)
        (ro (defaultOptions\<lparr>onFinish := True, maxFontSize := 24\<rparr>)
           (initHook (defaultOptions\<lparr>onFinish := True, maxFontSize := 24\<rparr>) :: nat Hook)) =
   \<lparr>state = \<lparr>calcKey = 1, fontSize = 24, fontSizePrev = 20, fontSizeMax = 24, fontSizeMin = 20\<rparr>,
    isCalculating = False, isCalculatingRef = False, depsPrevRef = None,
    effects = [OnFinish 24]\<rparr>"
proof -
  let ?wide = "defaultOptions\<lparr>onFinish := True\<rparr>"
  let ?narrow = "defaultOptions\<lparr>onFinish := True, maxFontSize := 24\<rparr>"
  let ?h = "ro ?wide (initHook ?wide) :: nat Hook"
  let ?g = "ro ?narrow (initHook ?narrow) :: nat Hook"
  have fit: "\<not> isOverflow (Some roomy)" by (simp add: isOverflow_def roomy_def)
  have wide: "minFontSize ?wide < maxFontSize ?wide" "0 < resolution ?wide" "onFinish ?wide"
    "state ?h = (initState ?wide)\<lparr>calcKey := Suc 0\<rparr>"
    "resolution ?wide < maxFontSize ?wide - minFontSize ?wide"
    by (simp_all add: defaultOptions_def ro_def resizeCallback_def initHook_def initState_def)
  have narrow: "minFontSize ?narrow < maxFontSize ?narrow" "0 < resolution ?narrow"
    "onFinish ?narrow" "state ?g = (initState ?narrow)\<lparr>calcKey := Suc 0\<rparr>"
    "maxFontSize ?narrow - minFontSize ?narrow \<le> resolution ?narrow"
    by (simp_all add: defaultOptions_def ro_def resizeCallback_def initHook_def initState_def)
  have "layoutEffect ?wide (Some roomy) (layoutEffect ?wide (Some roomy) ?h) =
      ?h\<lparr>state := \<lparr>calcKey = Suc 0, fontSize = maxFontSize ?wide,
             fontSizePrev = maxFontSize ?wide, fontSizeMax = maxFontSize ?wide,
             fontSizeMin = maxFontSize ?wide\<rparr>,
           isCalculatingRef := False, isCalculating := False,
           effects := effects ?h @ [OnFinish (maxFontSize ?wide)]\<rparr>"
    using fitting_at_max [OF wide(1,2,3) fit fit wide(4)] wide(5) by blast
  moreover have "layoutEffect ?narrow (Some roomy) ?g =
      ?g\<lparr>isCalculatingRef := False, isCalculating := False,
           effects := effects ?g @ [OnFinish (maxFontSize ?narrow)]\<rparr>"
    using fitting_at_max [OF narrow(1,2,3) fit fit narrow(4)] narrow(5) by blast
  ultimately show ?thesis
    by (simp add: defaultOptions_def ro_def resizeCallback_def initHook_def initState_def)
qed

section \<open>No container attached\<close>

lemma measureOverflow_value: "measureOverflow r = Inr (isOverflow r)"
  by (cases r) (simp_all add: measureOverflow_def readCurrent_def isOverflow_def)

lemma useFitText_without_deps: "useFitText numberToString None h = Inl TypeError"
  by (simp add: useFitText_def spreadDeps_def)






section \<open>Triggers during a search\<close>

text \<open>Both triggers are dropped while the ref \<open>isCalculatingRef\<close> is set.\<close>

lemma triggers_dropped_while_ref_set:
  "isCalculatingRef h \<Longrightarrow> ro opts h = h \<and> depsEffect opts deps h = h"
  by (simp add: ro_def resizeCallback_def depsEffect_def)

text \<open>
  Claim C7 does not hold for a search that the dependency effect started: that effect sets
  the state \<open>isCalculating\<close> and leaves the ref \<open>isCalculatingRef\<close> alone, and the
  triggers test the ref. Here a first search ends, a change of the dependency list starts
  a second one, which moves to 60, and a resize notification then calls \<open>onStart\<close>
  again and resets the font size to 100 while \<open>isCalculating\<close> is true.
\<close>

theorem resize_during_deps_search:
  "isCalculating (after (defaultOptions\<lparr>onStart := True\<rparr>)
      [Resize, Layout (Some roomy), Layout (Some roomy), Deps [1::nat], Layout (Some tooBig)])
   \<and> effects (after (defaultOptions\<lparr>onStart := True\<rparr>)
      [Resize, Layout (Some roomy), Layout (Some roomy), Deps [1::nat], Layout (Some tooBig)])
       = [OnStart, OnStart]
   \<and> fontSize (state (after (defaultOptions\<lparr>onStart := True\<rparr>)
      [Resize, Layout (Some roomy), Layout (Some roomy), Deps [1::nat], Layout (Some tooBig)]))
       = 60
   \<and> effects (after (defaultOptions\<lparr>onStart := True\<rparr>)
      [Resize, Layout (Some roomy), Layout (Some roomy), Deps [1::nat], Layout (Some tooBig),
       Resize]) = [OnStart, OnStart, OnStart]
   \<and> fontSize (state (after (defaultOptions\<lparr>onStart := True\<rparr>)
      [Resize, Layout (Some roomy), Layout (Some roomy), Deps [1::nat], Layout (Some tooBig),
       Resize])) = 100"
  by (simp add: after_def ro_def resizeCallback_def depsEffect_def layoutEffect_def
      isWithinResolution_def isFailed_def isOverflow_def isAsc_def defaultOptions_def
      roomy_def tooBig_def initHook_def initState_def Let_def)

end
